theory Spec2Isabelle
  imports Main "HOL-Library.Sublist" "HOL-Library.Word"
begin

section \<open>Credential file matcher\<close>

text \<open>
  \<^verbatim>\<open>reBuildClusterName = regexp.MustCompile(`(.*).kubeconfig`)\<close>

  File names are modelled as lists of characters, one \<^typ>\<open>char\<close> per rune of the Go
  string. In Go's regular-expression syntax an unescaped dot, without the \<^verbatim>\<open>s\<close>
  flag, stands for any character except the line feed.
\<close>

definition dot :: "char \<Rightarrow> bool" where
  "dot c \<longleftrightarrow> c \<noteq> CHR 0x0A"

text \<open>
  The part of the pattern after the group, \<^verbatim>\<open>.kubeconfig\<close>: one character
  accepted by the dot, then the ten literal characters. \<open>tail_here s\<close> holds when
  that part matches at the start of \<open>s\<close>.
\<close>

fun tail_here :: "string \<Rightarrow> bool" where
  "tail_here [] = False"
| "tail_here (c # cs) = (dot c \<and> prefix ''kubeconfig'' cs)"

text \<open>
  The whole pattern tried at the start of the input. The star of the group is greedy:
  it first takes one more character and lets the rest of the pattern go on from there,
  and only when that fails does it stop and leave the current position to
  \<^verbatim>\<open>.kubeconfig\<close>. The result is the text of group 1.
\<close>

fun match_here :: "string \<Rightarrow> string option" where
  "match_here [] = None"
| "match_here (c # cs) =
     (if dot c then
        (case match_here cs of
           Some g \<Rightarrow> Some (c # g)
         | None \<Rightarrow> if tail_here (c # cs) then Some [] else None)
      else None)"

text \<open>
  \<^verbatim>\<open>reBuildClusterName.FindStringSubmatch(s)\<close>: the pattern has no anchor, so
  the search takes the leftmost position of the input at which the pattern matches.
  The result is \<open>None\<close> for Go's \<^verbatim>\<open>nil\<close>, and otherwise the slice
  \<open>[m[0], m[1]]\<close>: the text of the whole match and the text of group 1.
\<close>

fun FindStringSubmatch :: "string \<Rightarrow> string list option" where
  "FindStringSubmatch [] = None"
| "FindStringSubmatch (c # cs) =
     (case match_here (c # cs) of
        Some g \<Rightarrow> Some [take (length g + 11) (c # cs), g]
      | None \<Rightarrow> FindStringSubmatch cs)"


section \<open>Data model\<close>

text \<open>
  The objects of the Kubernetes and OpenShift client libraries are opaque to this
  program: it only passes them on. Each is a tagged handle.
\<close>

datatype client_config = ClientConfigOf nat
datatype rest_config = RestConfig nat
datatype core_client = CoreClientset nat
datatype project_client = ProjectClientset nat
datatype image_client = ImageClientset nat
datatype dynamic_client = DynamicClient nat
datatype config_agent = ConfigAgentOf nat
datatype url = URL string
datatype watcher = Watcher nat

text \<open>\<^verbatim>\<open>type BuildClusterClientConfig struct\<close>\<close>

record BuildClusterClientConfig =
  KubeconfigPath :: string
  CoreConfig :: rest_config
  CoreClient :: core_client
  ProjectClient :: project_client
  TargetImageClient :: image_client

text \<open>
  \<^verbatim>\<open>type BuildClusterClientConfigMap map[string]*BuildClusterClientConfig\<close>.
  A variable of a Go map type is either \<^verbatim>\<open>nil\<close> (\<open>None\<close>) or a map.
\<close>

type_synonym BuildClusterClientConfigMap = "(string \<rightharpoonup> BuildClusterClientConfig) option"

text \<open>
  Error values. \<open>External\<close> is an error made by a library or the operating system;
  \<open>Errorf\<close> is \<^verbatim>\<open>fmt.Errorf\<close> with its format string and its arguments, kept
  unformatted.
\<close>

datatype error = External string | Errorf string "fmtarg list"
  and fmtarg = Str string | Err error | Cluster BuildClusterClientConfig

text \<open>
  How \<^verbatim>\<open>run\<close> stops: it returns an error to \<^verbatim>\<open>main\<close>, or it panics with the
  message of the Go runtime and returns nothing.
\<close>

datatype stop = Returns error | Panics string

definition nil_dereference :: string where
  "nil_dereference = ''runtime error: invalid memory address or nil pointer dereference''"

text \<open>\<^verbatim>\<open>os.FileInfo\<close>, as far as the program reads it.\<close>

record FileInfo =
  Name :: string
  IsDir :: bool

text \<open>\<^verbatim>\<open>fsnotify.Event\<close> and the bits of \<^verbatim>\<open>fsnotify.Op\<close>.\<close>

type_synonym Op = "32 word"

definition Create :: Op where "Create = 1"
definition Write :: Op where "Write = 2"
definition Remove :: Op where "Remove = 4"
definition Rename :: Op where "Rename = 8"
definition Chmod :: Op where "Chmod = 16"

record Event =
  EventName :: string
  Op :: Op

text \<open>\<^verbatim>\<open>type options struct\<close>, after \<^verbatim>\<open>pflag.Parse()\<close>.\<close>

record options =
  GithubEndpoint :: string
  ForcePROwner :: string
  BuildClusterKubeconfigsLocation :: string
  ReleaseClusterKubeconfig :: string
  ConfigResolver :: string

text \<open>
  The collaborators the program constructs: the resolver, the prow job client, the Job
  Manager with the seven arguments of \<^verbatim>\<open>NewJobManager\<close>, and the Bot with its token.
\<close>

datatype resolver = URLConfigResolver url
datatype prow_client = Resource dynamic_client string string string
datatype job_manager =
  NewJobManager config_agent resolver prow_client image_client
    BuildClusterClientConfigMap string string
datatype bot = NewBot string

section \<open>The world outside the program\<close>

text \<open>
  Every call that leaves \<^verbatim>\<open>main.go\<close> is answered by the world: the file system,
  the client libraries, the watch facility, the environment, and the functions of this
  package that live in other files. A call that returns \<^verbatim>\<open>(T, error)\<close> and whose
  error the program checks is a sum, \<open>Inl\<close> the error.
  \<^item> \<open>loadKubeconfigFromFlagOrDefault\<close> returns Go's pair as it is, because the
    program reads the first component whatever the second is: the pointer to the
    configuration, which may be \<^verbatim>\<open>nil\<close> (\<open>None\<close>), and the error, which may be
    \<^verbatim>\<open>nil\<close> (\<open>None\<close>). A loader that fails returns \<^verbatim>\<open>(nil, err)\<close>.
  \<^item> the constructors of the clients are given a configuration that is there; what
    \<^verbatim>\<open>imageclientset.NewForConfig\<close> does with a \<^verbatim>\<open>nil\<close> pointer is part of
    \<open>startup\<close> below.
  \<^item> \<open>watcher_Add\<close> is given the paths already watched, then the new path.
  \<^item> \<open>range_order\<close> is the order in which a \<^verbatim>\<open>range\<close> over the map visits
    its values: Go leaves it unspecified.
  \<^item> \<open>bot_Start w b m n\<close> is what the \<open>n\<close>-th call of
    \<^verbatim>\<open>bot.Start(manager)\<close> returns, counted from 0. A call that never returns is not
    modelled: nothing follows it.
\<close>

record world =
  ioutil_ReadDir :: "string \<Rightarrow> error + FileInfo list"
  ioutil_ReadFile :: "string \<Rightarrow> error + string"
  path_Join :: "string \<Rightarrow> string \<Rightarrow> string"
  clientcmd_NewClientConfigFromBytes :: "string \<Rightarrow> error + client_config"
  ClientConfig :: "client_config \<Rightarrow> error + rest_config"
  clientset_NewForConfig :: "rest_config \<Rightarrow> error + core_client"
  imageclientset_NewForConfig :: "rest_config \<Rightarrow> error + image_client"
  projectclientset_NewForConfig :: "rest_config \<Rightarrow> error + project_client"
  fsnotify_NewWatcher :: "error + watcher"
  os_Stat :: "string \<Rightarrow> error + FileInfo"
  watcher_Add :: "string list \<Rightarrow> string \<Rightarrow> error option"
  range_order :: "(string \<rightharpoonup> BuildClusterClientConfig) \<Rightarrow> BuildClusterClientConfig list"
  url_Parse :: "string \<Rightarrow> error + url"
  os_Getenv :: "string \<Rightarrow> string"
  loadKubeconfig :: "error + rest_config"
  dynamic_NewForConfig :: "rest_config \<Rightarrow> error + dynamic_client"
  loadKubeconfigFromFlagOrDefault :: "string \<Rightarrow> rest_config \<Rightarrow> rest_config option \<times> error option"
  prowconfig_ConfigAgent :: "error + config_agent"
  manager_Start :: "job_manager \<Rightarrow> error option"
  bot_Start :: "bot \<Rightarrow> job_manager \<Rightarrow> nat \<Rightarrow> error option"
  isRetriable :: "error \<Rightarrow> bool"

section \<open>Cluster directory scanner\<close>

text \<open>
  The body of the loop of \<^verbatim>\<open>readBuildClusterKubeConfigs\<close> over the directory
  entries, with the map built so far. Every \<^verbatim>\<open>return nil, fmt.Errorf(...)\<close> of
  the source is a branch that gives \<open>(None, Some err)\<close>.
\<close>

fun scanFiles :: "world \<Rightarrow> string \<Rightarrow> FileInfo list \<Rightarrow> (string \<rightharpoonup> BuildClusterClientConfig)
    \<Rightarrow> BuildClusterClientConfigMap \<times> error option" where
  "scanFiles w location [] clusterMap = (Some clusterMap, None)"
| "scanFiles w location (file # files) clusterMap =
     (if IsDir file then scanFiles w location files clusterMap
      else
        let fullPath = path_Join w location (Name file) in
        case FindStringSubmatch (Name file) of
          None \<Rightarrow> scanFiles w location files clusterMap
        | Some m \<Rightarrow>
           (case ioutil_ReadFile w fullPath of
              Inl err \<Rightarrow> (None, Some (Errorf ''unable to access kubeconfig %q: %v'' [Str (Name file), Err err]))
            | Inr contents \<Rightarrow>
           (case clientcmd_NewClientConfigFromBytes w contents of
              Inl err \<Rightarrow> (None, Some (Errorf ''could not load build client configuration: %v'' [Err err]))
            | Inr cfg \<Rightarrow>
           (case ClientConfig w cfg of
              Inl err \<Rightarrow> (None, Some (Errorf ''could not load cluster configuration: %v'' [Err err]))
            | Inr clusterConfig \<Rightarrow>
           (case clientset_NewForConfig w clusterConfig of
              Inl err \<Rightarrow> (None, Some (Errorf ''unable to create core client: %v'' [Err err]))
            | Inr coreClient \<Rightarrow>
           (case imageclientset_NewForConfig w clusterConfig of
              Inl err \<Rightarrow> (None, Some (Errorf ''unable to create target image client: %v'' [Err err]))
            | Inr targetImageClient \<Rightarrow>
           (case projectclientset_NewForConfig w clusterConfig of
              Inl err \<Rightarrow> (None, Some (Errorf ''unable to create project client: %v'' [Err err]))
            | Inr projectClient \<Rightarrow>
                scanFiles w location files
                  (clusterMap(m ! 1 \<mapsto>
                     \<lparr>KubeconfigPath = fullPath,
                      CoreConfig = clusterConfig,
                      CoreClient = coreClient,
                      ProjectClient = projectClient,
                      TargetImageClient = targetImageClient\<rparr>)))))))))"

definition readBuildClusterKubeConfigs :: "world \<Rightarrow> string
    \<Rightarrow> BuildClusterClientConfigMap \<times> error option" where
  "readBuildClusterKubeConfigs w location =
     (case ioutil_ReadDir w location of
        Inl err \<Rightarrow> (None, Some (Errorf ''unable to access location %q: %v'' [Str location, Err err]))
      | Inr files \<Rightarrow> scanFiles w location files Map.empty)"


section \<open>Effects\<close>

text \<open>
  What the program does to the world, in the order in which it does it: the calls it
  makes, the lines it logs, the goroutine it starts, the events the goroutine receives,
  the pauses, and the exit of the process.
\<close>

datatype effect =
    Call_readBuildClusterKubeConfigs string
  | Call_NewWatcher
  | Call_Stat string
  | Call_Add string
  | Go_eventLoop
  | Receive Event
  | Infof string Event
  | os_Exit int
  | Warningf string "fmtarg list"
  | Call_url_Parse string
  | Call_Getenv string
  | Call_loadKubeconfig
  | Call_dynamic_NewForConfig rest_config
  | Call_loadKubeconfigFromFlagOrDefault string rest_config
  | Call_imageclientset_NewForConfig "rest_config option"
  | Call_ConfigAgent
  | Construct_JobManager job_manager
  | Call_manager_Start
  | Construct_Bot bot
  | Call_bot_Start
  | Sleep nat

text \<open>\<open>emit es r\<close>: the effects \<open>es\<close> happen, then the computation \<open>r\<close>.\<close>

definition emit :: "effect list \<Rightarrow> effect list \<times> 'a \<Rightarrow> effect list \<times> 'a" where
  "emit es r = (es @ fst r, snd r)"

section \<open>Kubeconfig watch supervisor\<close>

text \<open>
  The values a \<^verbatim>\<open>range\<close> over the map visits; over a \<^verbatim>\<open>nil\<close> map the loop
  body never runs.
\<close>

fun range_values :: "world \<Rightarrow> BuildClusterClientConfigMap \<Rightarrow> BuildClusterClientConfig list" where
  "range_values w None = []"
| "range_values w (Some m) = range_order w m"

text \<open>
  The first loop of \<^verbatim>\<open>setupKubeconfigWatches\<close>, over the clusters still to visit,
  with the paths the watcher already holds.
\<close>

fun addWatches :: "world \<Rightarrow> BuildClusterClientConfig list \<Rightarrow> string list
    \<Rightarrow> effect list \<times> error option" where
  "addWatches w [] watched = ([], None)"
| "addWatches w (cluster # clusters) watched =
     emit [Call_Stat (KubeconfigPath cluster)]
     (case os_Stat w (KubeconfigPath cluster) of
        Inl err \<Rightarrow> addWatches w clusters watched
      | Inr info \<Rightarrow>
          emit [Call_Add (KubeconfigPath cluster)]
          (case watcher_Add w watched (KubeconfigPath cluster) of
             Some err \<Rightarrow> ([], Some (Errorf ''failed to watch %v: %w'' [Cluster cluster, Err err]))
           | None \<Rightarrow> addWatches w clusters (watched @ [KubeconfigPath cluster])))"

text \<open>
  The goroutine of \<^verbatim>\<open>setupKubeconfigWatches\<close>, run on the events that arrive on
  \<^verbatim>\<open>watcher.Events\<close>. It ends in \<open>Exited code\<close> when it has called
  \<^verbatim>\<open>os.Exit(code)\<close>, and in \<open>Watching\<close> when it has consumed every event
  and waits for the next one.
\<close>

datatype loop_state = Watching | Exited int

fun eventLoop :: "Event list \<Rightarrow> effect list \<times> loop_state" where
  "eventLoop [] = ([], Watching)"
| "eventLoop (e # es) =
     emit [Receive e]
     (if Op e = Chmod then eventLoop es
      else ([Infof ''event: %s, kubeconfig changed, exiting to make the kubelet restart us so we can pick them up'' e,
             os_Exit 0], Exited 0))"

definition setupKubeconfigWatches :: "world \<Rightarrow> BuildClusterClientConfigMap
    \<Rightarrow> effect list \<times> error option" where
  "setupKubeconfigWatches w clusters =
     emit [Call_NewWatcher]
     (case fsnotify_NewWatcher w of
        Inl err \<Rightarrow> ([], Some (Errorf ''failed to set up watcher: %w'' [Err err]))
      | Inr watcher \<Rightarrow>
          (case addWatches w (range_values w clusters) [] of
             (effects, Some err) \<Rightarrow> (effects, Some err)
           | (effects, None) \<Rightarrow> (effects @ [Go_eventLoop], None)))"

section \<open>Bootstrap orchestrator\<close>

text \<open>
  \<^verbatim>\<open>run\<close> from the scan of the directory to the construction of the Bot: the part
  before the retry loop. The result is how \<^verbatim>\<open>run\<close> stops there, or the Job Manager
  and the Bot the loop is entered with.

  The error that \<^verbatim>\<open>loadKubeconfigFromFlagOrDefault\<close> returns is bound to
  \<^verbatim>\<open>err\<close> and assigned again by the next line; the pointer that comes with it goes
  to \<^verbatim>\<open>imageclientset.NewForConfig\<close> as it is. That function starts by copying the
  configuration its argument points to (\<^verbatim>\<open>configShallowCopy := *c\<close>), so with a
  \<^verbatim>\<open>nil\<close> pointer the program panics there.
\<close>

definition startup :: "world \<Rightarrow> options \<Rightarrow> effect list \<times> (stop + job_manager \<times> bot)" where
  "startup w opt =
     emit [Call_readBuildClusterKubeConfigs (BuildClusterKubeconfigsLocation opt)]
     (case readBuildClusterKubeConfigs w (BuildClusterKubeconfigsLocation opt) of
        (buildClusterClientConfigs, Some err) \<Rightarrow>
          ([], Inl (Returns (Errorf ''unable to load build cluster configurations: %v'' [Err err])))
      | (buildClusterClientConfigs, None) \<Rightarrow>
     (case setupKubeconfigWatches w buildClusterClientConfigs of (watchEffects, watchErr) \<Rightarrow>
        emit watchEffects
       (emit (case watchErr of
                Some err \<Rightarrow> [Warningf ''failed to set up kubeconfig watches: %v'' [Err err]]
              | None \<Rightarrow> [])
       (emit [Call_url_Parse (ConfigResolver opt)]
       (case url_Parse w (ConfigResolver opt) of
          Inl err \<Rightarrow> ([], Inl (Returns (Errorf ''--config-resolver is not a valid URL: %v'' [Err err])))
        | Inr resolverURL \<Rightarrow>
        emit [Call_Getenv ''BOT_TOKEN'']
       (let botToken = os_Getenv w ''BOT_TOKEN'' in
        if length botToken = 0
        then ([], Inl (Returns (Errorf ''the environment variable BOT_TOKEN must be set'' [])))
        else
        emit [Call_loadKubeconfig]
       (case loadKubeconfig w of
          Inl err \<Rightarrow> ([], Inl (Returns err))
        | Inr prowJobKubeconfig \<Rightarrow>
        emit [Call_dynamic_NewForConfig prowJobKubeconfig]
       (case dynamic_NewForConfig w prowJobKubeconfig of
          Inl err \<Rightarrow> ([], Inl (Returns (Errorf ''unable to create prow client: %v'' [Err err])))
        | Inr dynamicClient \<Rightarrow>
        let prowClient = Resource dynamicClient ''prow.k8s.io'' ''v1'' ''prowjobs'' in
        emit [Call_loadKubeconfigFromFlagOrDefault (ReleaseClusterKubeconfig opt) prowJobKubeconfig]
       (case loadKubeconfigFromFlagOrDefault w (ReleaseClusterKubeconfig opt) prowJobKubeconfig of
          (releaseConfig, err) \<Rightarrow>
        emit [Call_imageclientset_NewForConfig releaseConfig]
       (case releaseConfig of
          None \<Rightarrow> ([], Inl (Panics nil_dereference))
        | Some config \<Rightarrow>
       (case imageclientset_NewForConfig w config of
          Inl err \<Rightarrow> ([], Inl (Returns (Errorf ''unable to create image client: %v'' [Err err])))
        | Inr imageClient \<Rightarrow>
        emit [Call_ConfigAgent]
       (case prowconfig_ConfigAgent w of
          Inl err \<Rightarrow> ([], Inl (Returns err))
        | Inr configAgent \<Rightarrow>
        let manager = NewJobManager configAgent (URLConfigResolver resolverURL) prowClient
                        imageClient buildClusterClientConfigs (GithubEndpoint opt) (ForcePROwner opt) in
        emit [Construct_JobManager manager, Call_manager_Start]
       (case manager_Start w manager of
          Some err \<Rightarrow> ([], Inl (Returns (Errorf ''unable to load initial configuration: %v'' [Err err])))
        | None \<Rightarrow>
        let the_bot = NewBot botToken in
        ([Construct_Bot the_bot], Inr (manager, the_bot)))))))))))))))"

text \<open>
  The retry loop at the end of \<^verbatim>\<open>run\<close>, at its \<open>n\<close>-th round, after the effects
  \<open>past\<close>. The loop has no bound: where it never ends the value is \<open>None\<close>.
\<close>

partial_function (option) botLoop :: "world \<Rightarrow> bot \<Rightarrow> job_manager \<Rightarrow> nat \<Rightarrow> effect list
    \<Rightarrow> (effect list \<times> error) option" where
  "botLoop w the_bot manager n past =
     (case bot_Start w the_bot manager n of
        Some err \<Rightarrow>
          if \<not> isRetriable w err then Some (past @ [Call_bot_Start], err)
          else botLoop w the_bot manager (Suc n) (past @ [Call_bot_Start, Sleep 5])
      | None \<Rightarrow> botLoop w the_bot manager (Suc n) (past @ [Call_bot_Start, Sleep 5]))"

text \<open>
  \<^verbatim>\<open>run\<close>: the effects and the way it stops, or \<open>None\<close> when it never stops.
\<close>

definition run :: "world \<Rightarrow> options \<Rightarrow> (effect list \<times> stop) option" where
  "run w opt =
     (case startup w opt of
        (effects, Inl stopped) \<Rightarrow> Some (effects, stopped)
      | (effects, Inr (manager, the_bot)) \<Rightarrow>
          (case botLoop w the_bot manager 0 effects of
             None \<Rightarrow> None
           | Some (effects', err) \<Rightarrow> Some (effects', Returns err)))"

section \<open>Vocabulary of the statements\<close>

text \<open>
  The cluster name the scanner stores a file under: element 1 of the slice that
  \<open>FindStringSubmatch\<close> returns for the file's name.
\<close>

definition clusterName :: "string \<Rightarrow> string option" where
  "clusterName name = (case FindStringSubmatch name of None \<Rightarrow> None | Some m \<Rightarrow> Some (m ! 1))"

text \<open>A directory entry the scanner acts on: not a directory, and the pattern matches its name.\<close>

definition matched :: "FileInfo \<Rightarrow> bool" where
  "matched f \<longleftrightarrow> \<not> IsDir f \<and> FindStringSubmatch (Name f) \<noteq> None"

text \<open>
  For the file of a directory entry, some step between reading it and the last client fails:
  reading, parsing, resolving, or the construction of the core, project or image client.
\<close>

definition buildFails :: "world \<Rightarrow> string \<Rightarrow> FileInfo \<Rightarrow> bool" where
  "buildFails w location f \<longleftrightarrow>
     (case ioutil_ReadFile w (path_Join w location (Name f)) of
        Inl err \<Rightarrow> True
      | Inr contents \<Rightarrow>
     (case clientcmd_NewClientConfigFromBytes w contents of
        Inl err \<Rightarrow> True
      | Inr cfg \<Rightarrow>
     (case ClientConfig w cfg of
        Inl err \<Rightarrow> True
      | Inr clusterConfig \<Rightarrow>
          isl (clientset_NewForConfig w clusterConfig)
          \<or> isl (projectclientset_NewForConfig w clusterConfig)
          \<or> isl (imageclientset_NewForConfig w clusterConfig))))"

text \<open>The listing of the directory fails, or the build fails for one of the matched entries.\<close>

definition scanFailure :: "world \<Rightarrow> string \<Rightarrow> bool" where
  "scanFailure w location =
     (case ioutil_ReadDir w location of
        Inl err \<Rightarrow> True
      | Inr files \<Rightarrow> list_ex (\<lambda>f. matched f \<and> buildFails w location f) files)"

text \<open>
  What one round of the scanner's loop does with a matched entry, as a value of its own: the
  error the scan ends with, or the bundle stored. \<open>scanFiles_step\<close> below relates it to
  the loop.
\<close>

definition bundleOf :: "world \<Rightarrow> string \<Rightarrow> FileInfo \<Rightarrow> error + BuildClusterClientConfig" where
  "bundleOf w location f =
     (case ioutil_ReadFile w (path_Join w location (Name f)) of
        Inl err \<Rightarrow> Inl (Errorf ''unable to access kubeconfig %q: %v'' [Str (Name f), Err err])
      | Inr contents \<Rightarrow>
     (case clientcmd_NewClientConfigFromBytes w contents of
        Inl err \<Rightarrow> Inl (Errorf ''could not load build client configuration: %v'' [Err err])
      | Inr cfg \<Rightarrow>
     (case ClientConfig w cfg of
        Inl err \<Rightarrow> Inl (Errorf ''could not load cluster configuration: %v'' [Err err])
      | Inr clusterConfig \<Rightarrow>
     (case clientset_NewForConfig w clusterConfig of
        Inl err \<Rightarrow> Inl (Errorf ''unable to create core client: %v'' [Err err])
      | Inr coreClient \<Rightarrow>
     (case imageclientset_NewForConfig w clusterConfig of
        Inl err \<Rightarrow> Inl (Errorf ''unable to create target image client: %v'' [Err err])
      | Inr targetImageClient \<Rightarrow>
     (case projectclientset_NewForConfig w clusterConfig of
        Inl err \<Rightarrow> Inl (Errorf ''unable to create project client: %v'' [Err err])
      | Inr projectClient \<Rightarrow>
          Inr \<lparr>KubeconfigPath = path_Join w location (Name f),
               CoreConfig = clusterConfig,
               CoreClient = coreClient,
               ProjectClient = projectClient,
               TargetImageClient = targetImageClient\<rparr>))))))"

text \<open>The paths handed to \<^verbatim>\<open>watcher.Add\<close>, in order.\<close>

fun added :: "effect list \<Rightarrow> string list" where
  "added [] = []"
| "added (Call_Add p # es) = p # added es"
| "added (e # es) = added es"

text \<open>\<^verbatim>\<open>os.Stat\<close> on the file of a bundle returns an error, as it does when the file does not exist.\<close>

definition statFails :: "world \<Rightarrow> BuildClusterClientConfig \<Rightarrow> bool" where
  "statFails w cluster \<longleftrightarrow> isl (os_Stat w (KubeconfigPath cluster))"

text \<open>A return of the Bot after which the loop goes on: no error, or a retriable one.\<close>

definition nilOrRetriable :: "world \<Rightarrow> error option \<Rightarrow> bool" where
  "nilOrRetriable w r = (case r of None \<Rightarrow> True | Some err \<Rightarrow> isRetriable w err)"

text \<open>The line \<^verbatim>\<open>run\<close> logs after the watch setup: a warning when it returned an error.\<close>

definition watchWarning :: "error option \<Rightarrow> effect list" where
  "watchWarning watchErr =
     (case watchErr of
        Some err \<Rightarrow> [Warningf ''failed to set up kubeconfig watches: %v'' [Err err]]
      | None \<Rightarrow> [])"

section \<open>Concrete worlds\<close>

text \<open>
  The options with the defaults of \<^verbatim>\<open>run\<close>, and a world in which the default
  directory holds \<^verbatim>\<open>a.kubeconfig\<close> and \<^verbatim>\<open>notes.txt\<close>, everything can be
  constructed, and the Bot returns a retriable error twice and then a fatal one.
\<close>

definition default_options :: options where
  "default_options =
     \<lparr>GithubEndpoint = ''https://api.github.com'',
      ForcePROwner = [],
      BuildClusterKubeconfigsLocation = ''/var/build-cluster-kubeconfigs'',
      ReleaseClusterKubeconfig = [],
      ConfigResolver = ''http://config.ci.openshift.org/config''\<rparr>"

definition demo_world :: world where
  "demo_world =
     \<lparr>ioutil_ReadDir = (\<lambda>location.
        if location = ''/var/build-cluster-kubeconfigs''
        then Inr [\<lparr>Name = ''a.kubeconfig'', IsDir = False\<rparr>, \<lparr>Name = ''notes.txt'', IsDir = False\<rparr>]
        else Inl (External ''no such file or directory'')),
      ioutil_ReadFile = (\<lambda>p.
        if p = ''/var/build-cluster-kubeconfigs/a.kubeconfig'' then Inr ''apiVersion: v1''
        else if p = ''/var/build-cluster-kubeconfigs/b.kubeconfig'' then Inr ''garbage''
        else Inl (External ''no such file or directory'')),
      path_Join = (\<lambda>dir name. dir @ ''/'' @ name),
      clientcmd_NewClientConfigFromBytes = (\<lambda>contents.
        if contents = ''apiVersion: v1'' then Inr (ClientConfigOf 1)
        else Inl (External ''yaml: unmarshal errors'')),
      ClientConfig = (\<lambda>cfg. Inr (RestConfig 1)),
      clientset_NewForConfig = (\<lambda>c. Inr (CoreClientset 1)),
      imageclientset_NewForConfig = (\<lambda>c. Inr (ImageClientset 1)),
      projectclientset_NewForConfig = (\<lambda>c. Inr (ProjectClientset 1)),
      fsnotify_NewWatcher = Inr (Watcher 1),
      os_Stat = (\<lambda>p.
        if p = ''/var/build-cluster-kubeconfigs/a.kubeconfig''
        then Inr \<lparr>Name = ''a.kubeconfig'', IsDir = False\<rparr>
        else Inl (External ''no such file or directory'')),
      watcher_Add = (\<lambda>watched p. None),
      range_order = (\<lambda>m. List.map_filter m [''b'', ''a'']),
      url_Parse = (\<lambda>s. Inr (URL s)),
      os_Getenv = (\<lambda>key. if key = ''BOT_TOKEN'' then ''xoxb-1'' else []),
      loadKubeconfig = Inr (RestConfig 0),
      dynamic_NewForConfig = (\<lambda>c. Inr (DynamicClient 0)),
      loadKubeconfigFromFlagOrDefault = (\<lambda>p def.
        if p = [] then (Some def, None)
        else (None, Some (External ''no such file or directory''))),
      prowconfig_ConfigAgent = Inr (ConfigAgentOf 0),
      manager_Start = (\<lambda>manager. None),
      bot_Start = (\<lambda>b manager n.
        if n < 2 then Some (External ''connection reset'') else Some (External ''invalid_auth'')),
      isRetriable = (\<lambda>err. err = External ''connection reset'')\<rparr>"

definition bundle_a :: BuildClusterClientConfig where
  "bundle_a =
     \<lparr>KubeconfigPath = ''/var/build-cluster-kubeconfigs/a.kubeconfig'',
      CoreConfig = RestConfig 1,
      CoreClient = CoreClientset 1,
      ProjectClient = ProjectClientset 1,
      TargetImageClient = ImageClientset 1\<rparr>"

definition bundle_b :: BuildClusterClientConfig where
  "bundle_b = bundle_a\<lparr>KubeconfigPath := ''/var/build-cluster-kubeconfigs/b.kubeconfig''\<rparr>"

definition demo_manager :: job_manager where
  "demo_manager =
     NewJobManager (ConfigAgentOf 0) (URLConfigResolver (URL ''http://config.ci.openshift.org/config''))
       (Resource (DynamicClient 0) ''prow.k8s.io'' ''v1'' ''prowjobs'') (ImageClientset 1)
       (Some [''a'' \<mapsto> bundle_a]) ''https://api.github.com'' []"

text \<open>The directory holds a valid \<^verbatim>\<open>a.kubeconfig\<close> and a malformed \<^verbatim>\<open>b.kubeconfig\<close>.\<close>

definition broken_world :: world where
  "broken_world = demo_world\<lparr>ioutil_ReadDir := (\<lambda>location.
     Inr [\<lparr>Name = ''a.kubeconfig'', IsDir = False\<rparr>, \<lparr>Name = ''b.kubeconfig'', IsDir = False\<rparr>])\<rparr>"


text \<open>The variable \<^verbatim>\<open>BOT_TOKEN\<close> is not set; in the second world the directory is missing too.\<close>

definition no_token_world :: world where
  "no_token_world = demo_world\<lparr>os_Getenv := (\<lambda>key. [])\<rparr>"

definition no_directory_world :: world where
  "no_directory_world =
     no_token_world\<lparr>ioutil_ReadDir := (\<lambda>location. Inl (External ''no such file or directory''))\<rparr>"

text \<open>
  The flag \<^verbatim>\<open>--release-cluster-kubeconfig\<close> names a file; in \<open>demo_world\<close> loading
  it fails, and the loader returns \<^verbatim>\<open>(nil, err)\<close>.
\<close>

definition release_options :: options where
  "release_options = default_options\<lparr>ReleaseClusterKubeconfig := ''/etc/release.kubeconfig''\<rparr>"

text \<open>
  Two directories with a file that is not named \<^verbatim>\<open><name>.kubeconfig\<close>: the backup
  \<^verbatim>\<open>a.kubeconfig.bak\<close> of a credential file beside \<^verbatim>\<open>notes.txt\<close>, and a text
  file \<^verbatim>\<open>old-kubeconfigs.txt\<close> beside a valid \<^verbatim>\<open>a.kubeconfig\<close>.
\<close>

definition backup_world :: world where
  "backup_world = demo_world
     \<lparr>ioutil_ReadDir := (\<lambda>location.
        Inr [\<lparr>Name = ''a.kubeconfig.bak'', IsDir = False\<rparr>, \<lparr>Name = ''notes.txt'', IsDir = False\<rparr>]),
      ioutil_ReadFile := (\<lambda>p.
        if p = ''/var/build-cluster-kubeconfigs/a.kubeconfig.bak'' then Inr ''apiVersion: v1''
        else Inl (External ''no such file or directory''))\<rparr>"

definition stray_world :: world where
  "stray_world = demo_world
     \<lparr>ioutil_ReadDir := (\<lambda>location.
        Inr [\<lparr>Name = ''a.kubeconfig'', IsDir = False\<rparr>, \<lparr>Name = ''old-kubeconfigs.txt'', IsDir = False\<rparr>]),
      ioutil_ReadFile := (\<lambda>p.
        if p = ''/var/build-cluster-kubeconfigs/a.kubeconfig'' then Inr ''apiVersion: v1''
        else if p = ''/var/build-cluster-kubeconfigs/old-kubeconfigs.txt'' then Inr ''rotated on monday''
        else Inl (External ''no such file or directory''))\<rparr>"

section \<open>The matcher\<close>

lemma match_here_sound:
  "match_here s = Some g \<Longrightarrow> \<exists>c r. s = g @ c # ''kubeconfig'' @ r \<and> dot c \<and> (\<forall>x\<in>set g. dot x)"
proof (induction s arbitrary: g)
  case Nil
  then show ?case by simp
next
  case (Cons a s)
  show ?case
  proof (cases "match_here s")
    case None
    with Cons.prems have "g = []" and "dot a" and "prefix ''kubeconfig'' s"
      by (auto split: if_splits)
    then show ?thesis by (auto simp: prefix_def)
  next
    case (Some g')
    with Cons.prems have g: "g = a # g'" and a: "dot a"
      by (auto split: if_splits)
    from Cons.IH [OF Some] obtain c r where "s = g' @ c # ''kubeconfig'' @ r" "dot c" "\<forall>x\<in>set g'. dot x"
      by blast
    with g a show ?thesis by auto
  qed
qed

lemma match_here_Cons:
  "dot c \<Longrightarrow> match_here (c # cs) =
     (case match_here cs of
        Some g \<Rightarrow> Some (c # g)
      | None \<Rightarrow> if prefix ''kubeconfig'' cs then Some [] else None)"
  by simp

lemma match_here_complete:
  "\<forall>x\<in>set u. dot x \<Longrightarrow> dot c \<Longrightarrow> match_here (u @ c # ''kubeconfig'' @ r) \<noteq> None"
proof (induction u)
  case Nil
  have "prefix ''kubeconfig'' (''kubeconfig'' @ r)" by (rule prefixI) simp
  with match_here_Cons [OF Nil(2), of "''kubeconfig'' @ r"]
  have "match_here (c # ''kubeconfig'' @ r) \<noteq> None"
    by (cases "match_here (''kubeconfig'' @ r)") (simp_all del: match_here.simps)
  then show ?case by (simp del: match_here.simps)
next
  case (Cons a u)
  then have a: "dot a" and rest: "match_here (u @ c # ''kubeconfig'' @ r) \<noteq> None" by simp_all
  from rest obtain g where "match_here (u @ c # ''kubeconfig'' @ r) = Some g" by blast
  with match_here_Cons [OF a, of "u @ c # ''kubeconfig'' @ r"]
  show ?case by (simp del: match_here.simps)
qed

lemma FindStringSubmatch_sound:
  "FindStringSubmatch s = Some m \<Longrightarrow>
   \<exists>u g c r. m = [g @ c # ''kubeconfig'', g] \<and> s = u @ g @ c # ''kubeconfig'' @ r \<and> dot c"
proof (induction s)
  case Nil
  then show ?case by simp
next
  case (Cons a s)
  show ?case
  proof (cases "match_here (a # s)")
    case None
    with Cons.prems have "FindStringSubmatch s = Some m" by simp
    from Cons.IH [OF this] obtain u g c r where
      "m = [g @ c # ''kubeconfig'', g]" "s = u @ g @ c # ''kubeconfig'' @ r" "dot c" by blast
    then have "m = [g @ c # ''kubeconfig'', g] \<and> a # s = (a # u) @ g @ c # ''kubeconfig'' @ r \<and> dot c"
      by simp
    then show ?thesis by blast
  next
    case (Some g)
    from match_here_sound [OF Some] obtain c r where
      s: "a # s = g @ c # ''kubeconfig'' @ r" and c: "dot c" by blast
    from Some Cons.prems have "m = [take (length g + 11) (a # s), g]" by simp
    also have "take (length g + 11) (a # s) = g @ c # ''kubeconfig''"
      unfolding s by simp
    finally have "m = [g @ c # ''kubeconfig'', g] \<and> a # s = [] @ g @ c # ''kubeconfig'' @ r \<and> dot c"
      using s c by simp
    then show ?thesis by blast
  qed
qed

lemma FindStringSubmatch_here:
  "match_here (c # cs) \<noteq> None \<Longrightarrow> FindStringSubmatch (c # cs) \<noteq> None"
  by (cases "match_here (c # cs)") (simp_all del: match_here.simps)

lemma FindStringSubmatch_later:
  "FindStringSubmatch cs \<noteq> None \<Longrightarrow> FindStringSubmatch (c # cs) \<noteq> None"
  by (cases "match_here (c # cs)") (simp_all del: match_here.simps)

lemma FindStringSubmatch_complete:
  "dot c \<Longrightarrow> FindStringSubmatch (u @ c # ''kubeconfig'' @ r) \<noteq> None"
proof (induction u)
  case Nil
  have "match_here ([] @ c # ''kubeconfig'' @ r) \<noteq> None"
    using Nil by (intro match_here_complete) simp_all
  then have "match_here (c # ''kubeconfig'' @ r) \<noteq> None"
    by (simp del: match_here.simps)
  then have "FindStringSubmatch (c # ''kubeconfig'' @ r) \<noteq> None" by (rule FindStringSubmatch_here)
  then show ?case by (simp del: match_here.simps FindStringSubmatch.simps)
next
  case (Cons a u)
  then have "FindStringSubmatch (u @ c # ''kubeconfig'' @ r) \<noteq> None" by blast
  then have "FindStringSubmatch (a # u @ c # ''kubeconfig'' @ r) \<noteq> None" by (rule FindStringSubmatch_later)
  then show ?case by (simp del: match_here.simps FindStringSubmatch.simps)
qed

text \<open>
  What the pattern accepts: every name that holds, anywhere, a character other than the line
  feed followed by \<^verbatim>\<open>kubeconfig\<close>.
\<close>

lemma FindStringSubmatch_iff:
  "FindStringSubmatch s \<noteq> None \<longleftrightarrow> (\<exists>u c r. s = u @ c # ''kubeconfig'' @ r \<and> dot c)"
proof
  assume "FindStringSubmatch s \<noteq> None"
  then obtain m where "FindStringSubmatch s = Some m" by blast
  from FindStringSubmatch_sound [OF this] obtain u g c r where
     "s = u @ g @ c # ''kubeconfig'' @ r" "dot c" by blast
  then have "s = (u @ g) @ c # ''kubeconfig'' @ r \<and> dot c" by simp
  then show "\<exists>u c r. s = u @ c # ''kubeconfig'' @ r \<and> dot c" by blast
next
  assume "\<exists>u c r. s = u @ c # ''kubeconfig'' @ r \<and> dot c"
  then show "FindStringSubmatch s \<noteq> None" using FindStringSubmatch_complete by blast
qed

text \<open>
  On a name of the intended form, a prefix without line feed followed by
  \<^verbatim>\<open>.kubeconfig\<close>, the group is the prefix; the prefix may be empty.
\<close>

lemma match_here_name:
  "\<forall>x\<in>set p. dot x \<Longrightarrow> match_here (p @ ''.kubeconfig'') = Some p"
  by (induction p) (simp_all add: dot_def)

lemma FindStringSubmatch_name:
  assumes "\<forall>x\<in>set p. dot x"
  shows "FindStringSubmatch (p @ ''.kubeconfig'') = Some [p @ ''.kubeconfig'', p]"
proof (cases p)
  case Nil
  then show ?thesis by (simp add: dot_def)
next
  case (Cons a q)
  have "match_here (a # q @ ''.kubeconfig'') = Some p"
    using match_here_name [OF assms] Cons by simp
  then show ?thesis using Cons by simp
qed

text \<open>
  C1. The claim: the matcher matches a file name exactly when the name ends with
  \<^verbatim>\<open>.kubeconfig\<close> after a non-empty prefix, and the cluster name is that prefix.
  The pattern of the source has no anchors and its dot is not escaped. It matches
  \<^verbatim>\<open>east.kubeconfig.bak\<close>, which does not end with the suffix, under the name
  \<^verbatim>\<open>east\<close>; it matches \<^verbatim>\<open>.kubeconfig\<close>, whose prefix is empty, under the
  empty name; and it matches \<^verbatim>\<open>mykubeconfig\<close>, which has no dot at all, under the
  name \<^verbatim>\<open>m\<close>.
\<close>

theorem matcher_accepts_more:
  "FindStringSubmatch ''east.kubeconfig.bak'' = Some [''east.kubeconfig'', ''east'']
   \<and> FindStringSubmatch ''.kubeconfig'' = Some [''.kubeconfig'', []]
   \<and> FindStringSubmatch ''mykubeconfig'' = Some [''mykubeconfig'', ''m'']"
  by (simp add: dot_def)

section \<open>The scanner\<close>

lemma fst_emit [simp]: "fst (emit es r) = es @ fst r"
  and snd_emit [simp]: "snd (emit es r) = snd r"
  by (simp_all add: emit_def)

lemma scanFiles_step:
  "scanFiles w location (f # files) cm =
     (if matched f then
        (case bundleOf w location f of
           Inl err \<Rightarrow> (None, Some err)
         | Inr b \<Rightarrow> scanFiles w location files (cm(the (clusterName (Name f)) \<mapsto> b)))
      else scanFiles w location files cm)"
  by (auto simp: matched_def bundleOf_def clusterName_def Let_def split: sum.splits)

lemma buildFails_iff: "buildFails w location f \<longleftrightarrow> isl (bundleOf w location f)"
  by (auto simp: buildFails_def bundleOf_def isl_def split: sum.splits)

lemma bundleOf_path:
  "bundleOf w location f = Inr b \<Longrightarrow> KubeconfigPath b = path_Join w location (Name f)"
  by (auto simp: bundleOf_def split: sum.splits)

lemma matched_clusterName:
  "matched f \<longleftrightarrow> \<not> IsDir f \<and> (\<exists>k. clusterName (Name f) = Some k)"
  by (auto simp: matched_def clusterName_def split: option.splits)

lemma scanFiles_skip:
  "\<not> matched f \<Longrightarrow> scanFiles w location (f # files) cm = scanFiles w location files cm"
  by (simp only: scanFiles_step if_False)

lemma scanFiles_fails:
  "matched f \<Longrightarrow> buildFails w location f \<Longrightarrow>
   \<exists>err. \<forall>files cm. scanFiles w location (f # files) cm = (None, Some err)"
  by (auto simp only: scanFiles_step buildFails_iff isl_def if_True sum.case)

lemma scanFiles_builds:
  assumes "matched f" and "\<not> buildFails w location f"
  shows "\<exists>k b. clusterName (Name f) = Some k
     \<and> KubeconfigPath b = path_Join w location (Name f)
     \<and> (\<forall>files cm. scanFiles w location (f # files) cm = scanFiles w location files (cm(k \<mapsto> b)))"
proof -
  from assms(2) obtain b where b: "bundleOf w location f = Inr b"
    by (cases "bundleOf w location f") (auto simp: buildFails_iff)
  from assms(1) obtain k where k: "clusterName (Name f) = Some k"
    by (auto simp: matched_clusterName)
  have "\<forall>files cm. scanFiles w location (f # files) cm = scanFiles w location files (cm(k \<mapsto> b))"
    by (simp only: scanFiles_step assms(1) if_True b k sum.case option.sel) simp
  with k bundleOf_path [OF b] show ?thesis by blast
qed

lemma scanFiles_atomic:
  "\<exists>f\<in>set files. matched f \<and> buildFails w location f \<Longrightarrow>
   \<exists>err. scanFiles w location files cm = (None, Some err)"
proof (induction files arbitrary: cm)
  case Nil
  then show ?case by simp
next
  case (Cons f files)
  show ?case
  proof (cases "matched f")
    case False
    with Cons.prems have "\<exists>f\<in>set files. matched f \<and> buildFails w location f" by auto
    from Cons.IH [OF this] show ?thesis by (simp only: scanFiles_skip [OF False])
  next
    case True
    show ?thesis
    proof (cases "buildFails w location f")
      case True
      with \<open>matched f\<close> show ?thesis using scanFiles_fails by blast
    next
      case False
      with Cons.prems have rest: "\<exists>f\<in>set files. matched f \<and> buildFails w location f" by auto
      from scanFiles_builds [OF True False] obtain k b where
        "scanFiles w location (f # files) cm = scanFiles w location files (cm(k \<mapsto> b))"
        by blast
      with Cons.IH [OF rest] show ?thesis by (simp only:)
    qed
  qed
qed

lemma scanFiles_total:
  "\<forall>f\<in>set files. matched f \<longrightarrow> \<not> buildFails w location f \<Longrightarrow>
   \<exists>m. scanFiles w location files cm = (Some m, None)"
proof (induction files arbitrary: cm)
  case Nil
  then show ?case by simp
next
  case (Cons f files)
  then have rest: "\<forall>f\<in>set files. matched f \<longrightarrow> \<not> buildFails w location f" by simp
  show ?case
  proof (cases "matched f")
    case False
    from Cons.IH [OF rest] show ?thesis by (simp only: scanFiles_skip [OF False])
  next
    case True
    with Cons.prems have "\<not> buildFails w location f" by simp
    from scanFiles_builds [OF True this] obtain k b where
      "scanFiles w location (f # files) cm = scanFiles w location files (cm(k \<mapsto> b))"
      by blast
    with Cons.IH [OF rest] show ?thesis by (simp only:)
  qed
qed

lemma scanFiles_dom:
  "scanFiles w location files cm = (Some m, None) \<Longrightarrow>
   dom m = dom cm \<union> {k. \<exists>f\<in>set files. \<not> IsDir f \<and> clusterName (Name f) = Some k}"
proof (induction files arbitrary: cm)
  case Nil
  then show ?case by auto
next
  case (Cons f files)
  show ?case
  proof (cases "matched f")
    case False
    then have none: "IsDir f \<or> clusterName (Name f) = None"
      by (auto simp: matched_def clusterName_def)
    from Cons.prems have "scanFiles w location files cm = (Some m, None)"
      by (simp only: scanFiles_skip [OF False])
    from Cons.IH [OF this] none show ?thesis by auto
  next
    case True
    then have nd: "\<not> IsDir f" by (simp add: matched_def)
    have "\<not> buildFails w location f"
      using scanFiles_fails [OF True, of w location] Cons.prems by auto
    from scanFiles_builds [OF True this] obtain k b where
      k: "clusterName (Name f) = Some k"
      and step: "scanFiles w location (f # files) cm = scanFiles w location files (cm(k \<mapsto> b))"
      by blast
    from Cons.prems step have "scanFiles w location files (cm(k \<mapsto> b)) = (Some m, None)" by (simp only:)
    from Cons.IH [of "cm(k \<mapsto> b)", OF this] have "dom m = insert k (dom cm)
        \<union> {k. \<exists>f\<in>set files. \<not> IsDir f \<and> clusterName (Name f) = Some k}"
      by (auto split: if_splits)
    with k nd show ?thesis by auto
  qed
qed

lemma scanFiles_paths:
  "scanFiles w location files cm = (Some m, None) \<Longrightarrow> m k = Some b \<Longrightarrow>
   cm k = Some b \<or> (\<exists>f\<in>set files. \<not> IsDir f \<and> clusterName (Name f) = Some k
       \<and> KubeconfigPath b = path_Join w location (Name f))"
proof (induction files arbitrary: cm)
  case Nil
  then show ?case by auto
next
  case (Cons f files)
  show ?case
  proof (cases "matched f")
    case False
    from Cons.prems have "scanFiles w location files cm = (Some m, None)"
      by (simp only: scanFiles_skip [OF False])
    from Cons.IH [OF this Cons.prems(2)] show ?thesis by auto
  next
    case True
    then have nd: "\<not> IsDir f" by (simp add: matched_def)
    have "\<not> buildFails w location f"
      using scanFiles_fails [OF True, of w location] Cons.prems by auto
    from scanFiles_builds [OF True this] obtain k' b' where
      k: "clusterName (Name f) = Some k'"
      and b: "KubeconfigPath b' = path_Join w location (Name f)"
      and step: "scanFiles w location (f # files) cm = scanFiles w location files (cm(k' \<mapsto> b'))"
      by blast
    from Cons.prems step have "scanFiles w location files (cm(k' \<mapsto> b')) = (Some m, None)" by (simp only:)
    from Cons.IH [of "cm(k' \<mapsto> b')", OF this Cons.prems(2)] k b nd show ?thesis
      by (auto split: if_splits)
  qed
qed

lemma scanFiles_filter:
  "scanFiles w location (filter matched files) cm = scanFiles w location files cm"
proof (induction files arbitrary: cm)
  case Nil
  then show ?case by simp
next
  case (Cons f files)
  show ?case
  proof (cases "matched f")
    case False
    then show ?thesis
      by (simp only: filter.simps if_False scanFiles_skip [OF False] Cons.IH)
  next
    case True
    then have eq: "filter matched (f # files) = f # filter matched files" by simp
    show ?thesis
    proof (cases "buildFails w location f")
      case True
      from scanFiles_fails [OF \<open>matched f\<close> True] obtain err where
        "\<forall>files cm. scanFiles w location (f # files) cm = (None, Some err)" by blast
      then show ?thesis unfolding eq by (simp only:)
    next
      case False
      from scanFiles_builds [OF True False] obtain k b where
        "\<forall>files cm. scanFiles w location (f # files) cm = scanFiles w location files (cm(k \<mapsto> b))"
        by blast
      then show ?thesis unfolding eq by (simp only: Cons.IH)
    qed
  qed
qed

lemma scan_demo:
  "readBuildClusterKubeConfigs demo_world ''/var/build-cluster-kubeconfigs'' = (Some [''a'' \<mapsto> bundle_a], None)"
  by (simp add: readBuildClusterKubeConfigs_def demo_world_def bundle_a_def dot_def)

text \<open>
  C3. The scan is atomic: when listing the directory fails, or when for some matched file
  reading it, parsing it, resolving it or constructing one of its three clients fails, the
  scan returns an error and the \<^verbatim>\<open>nil\<close> map, never the map built so far; in every
  other case it returns a map and no error.
\<close>

theorem scan_is_atomic:
  "(scanFailure w location \<longrightarrow> (\<exists>err. readBuildClusterKubeConfigs w location = (None, Some err)))
   \<and> (\<not> scanFailure w location \<longrightarrow> (\<exists>m. readBuildClusterKubeConfigs w location = (Some m, None)))"
proof (cases "ioutil_ReadDir w location")
  case (Inl err)
  then show ?thesis by (simp add: scanFailure_def readBuildClusterKubeConfigs_def)
next
  case (Inr files)
  show ?thesis
  proof (cases "\<exists>f\<in>set files. matched f \<and> buildFails w location f")
    case True
    from scanFiles_atomic [OF this, of Map.empty] Inr True show ?thesis
      by (auto simp: scanFailure_def readBuildClusterKubeConfigs_def list_ex_iff)
  next
    case False
    then have "\<forall>f\<in>set files. matched f \<longrightarrow> \<not> buildFails w location f" by blast
    from scanFiles_total [OF this, of Map.empty] Inr False show ?thesis
      by (auto simp: scanFailure_def readBuildClusterKubeConfigs_def list_ex_iff)
  qed
qed


lemma scan_broken:
  "scanFailure broken_world ''/var/build-cluster-kubeconfigs''"
  by (simp add: scanFailure_def broken_world_def demo_world_def matched_def buildFails_def dot_def)

theorem scan_is_atomic_witness:
  "scanFailure broken_world ''/var/build-cluster-kubeconfigs''
   \<and> fst (readBuildClusterKubeConfigs broken_world ''/var/build-cluster-kubeconfigs'') = None
   \<and> snd (readBuildClusterKubeConfigs broken_world ''/var/build-cluster-kubeconfigs'') \<noteq> None"
  using scan_is_atomic [of broken_world "''/var/build-cluster-kubeconfigs''"] scan_broken
  by auto

text \<open>
  What a successful scan stores, with the pattern as the source has it (\<open>matched\<close>,
  \<open>clusterName\<close>): an empty directory gives the empty map and no error; directories and
  entries the pattern does not match change nothing; the keys are the names the pattern
  extracts from the other entries; and a directory that holds \<^verbatim>\<open>notes.txt\<close> and a
  buildable \<^verbatim>\<open>a.kubeconfig\<close> gives a map whose only key is \<^verbatim>\<open>a\<close>.
\<close>

lemma scan_keys:
  "(ioutil_ReadDir w location = Inr [] \<longrightarrow>
      readBuildClusterKubeConfigs w location = (Some Map.empty, None))
   \<and> (ioutil_ReadDir w location = Inr files \<longrightarrow>
      readBuildClusterKubeConfigs w location = scanFiles w location (filter matched files) Map.empty)
   \<and> (ioutil_ReadDir w location = Inr files \<and> readBuildClusterKubeConfigs w location = (Some m, None) \<longrightarrow>
      dom m = {k. \<exists>f\<in>set files. \<not> IsDir f \<and> clusterName (Name f) = Some k})
   \<and> (ioutil_ReadDir w location = Inr files
       \<and> set files = {\<lparr>Name = ''notes.txt'', IsDir = False\<rparr>, \<lparr>Name = ''a.kubeconfig'', IsDir = False\<rparr>}
       \<and> \<not> buildFails w location \<lparr>Name = ''a.kubeconfig'', IsDir = False\<rparr> \<longrightarrow>
      (\<exists>m'. readBuildClusterKubeConfigs w location = (Some m', None) \<and> dom m' = {''a''}))"
proof (intro conjI impI)
  assume "ioutil_ReadDir w location = Inr []"
  then show "readBuildClusterKubeConfigs w location = (Some Map.empty, None)"
    by (simp add: readBuildClusterKubeConfigs_def)
next
  assume "ioutil_ReadDir w location = Inr files"
  then show "readBuildClusterKubeConfigs w location = scanFiles w location (filter matched files) Map.empty"
    by (simp add: readBuildClusterKubeConfigs_def scanFiles_filter)
next
  assume "ioutil_ReadDir w location = Inr files \<and> readBuildClusterKubeConfigs w location = (Some m, None)"
  then have "scanFiles w location files Map.empty = (Some m, None)"
    by (auto simp: readBuildClusterKubeConfigs_def)
  from scanFiles_dom [OF this]
  show "dom m = {k. \<exists>f\<in>set files. \<not> IsDir f \<and> clusterName (Name f) = Some k}" by simp
next
  assume a: "ioutil_ReadDir w location = Inr files
       \<and> set files = {\<lparr>Name = ''notes.txt'', IsDir = False\<rparr>, \<lparr>Name = ''a.kubeconfig'', IsDir = False\<rparr>}
       \<and> \<not> buildFails w location \<lparr>Name = ''a.kubeconfig'', IsDir = False\<rparr>"
  have n: "\<not> matched \<lparr>Name = ''notes.txt'', IsDir = False\<rparr>"
    by (simp add: matched_def)
  have ka: "clusterName ''a.kubeconfig'' = Some ''a''" and kn: "clusterName ''notes.txt'' = None"
    by (simp_all add: clusterName_def dot_def)
  from a n have "\<forall>f\<in>set files. matched f \<longrightarrow> \<not> buildFails w location f" by auto
  from scanFiles_total [OF this] obtain b where
    b: "scanFiles w location files Map.empty = (Some b, None)" by blast
  from scanFiles_dom [OF b] a ka kn have "dom b = {''a''}" by auto
  with b a show "\<exists>m'. readBuildClusterKubeConfigs w location = (Some m', None) \<and> dom m' = {''a''}"
    by (simp add: readBuildClusterKubeConfigs_def)
qed

text \<open>
  C9. The claim: entries whose names do not have the form \<^verbatim>\<open><name>.kubeconfig\<close> are
  ignored in silence, so that the keys of the map come from the files of that form alone.
  The scanner decides with the pattern of C1, which matches more names. In a directory that
  holds \<^verbatim>\<open>a.kubeconfig.bak\<close> and \<^verbatim>\<open>notes.txt\<close> the backup file is read and
  stored under the key \<^verbatim>\<open>a\<close>, where the claim has the empty map; in a directory
  that holds a valid \<^verbatim>\<open>a.kubeconfig\<close> and a text file
  \<^verbatim>\<open>old-kubeconfigs.txt\<close> the text file is read and parsed as a credential and the
  whole scan fails, where the claim has a map with the one key \<^verbatim>\<open>a\<close>.
\<close>

theorem other_names_not_ignored:
  "readBuildClusterKubeConfigs backup_world ''/var/build-cluster-kubeconfigs'' =
     (Some [''a'' \<mapsto> bundle_a\<lparr>KubeconfigPath := ''/var/build-cluster-kubeconfigs/a.kubeconfig.bak''\<rparr>], None)
   \<and> readBuildClusterKubeConfigs stray_world ''/var/build-cluster-kubeconfigs'' =
     (None, Some (Errorf ''could not load build client configuration: %v''
                    [Err (External ''yaml: unmarshal errors'')]))"
  by (simp add: readBuildClusterKubeConfigs_def backup_world_def stray_world_def demo_world_def
        bundle_a_def dot_def)

section \<open>The watch supervisor\<close>

lemma added_append [simp]: "added (xs @ ys) = added xs @ added ys"
  by (induction xs rule: added.induct) simp_all

lemma eventLoop_chmod:
  "\<forall>e\<in>set es. Op e = Chmod \<Longrightarrow> eventLoop (es @ later) = emit (map Receive es) (eventLoop later)"
  by (induction es) (simp_all add: emit_def)

text \<open>
  C4. Whatever events arrive, the loop of the goroutine goes on watching as long as every
  event is exactly a permission change (\<open>Op = Chmod\<close>), and at the first event of any
  other kind it logs the event and calls \<^verbatim>\<open>os.Exit(0)\<close> at once: it receives no
  later event.
\<close>

theorem chmod_ignored_other_exits:
  "((\<forall>e\<in>set es. Op e = Chmod) \<longrightarrow> eventLoop es = (map Receive es, Watching))
   \<and> ((\<forall>e\<in>set es. Op e = Chmod) \<and> Op e \<noteq> Chmod \<longrightarrow>
        eventLoop (es @ e # later) =
          (map Receive es @ [Receive e,
             Infof ''event: %s, kubeconfig changed, exiting to make the kubelet restart us so we can pick them up'' e,
             os_Exit 0], Exited 0))"
  using eventLoop_chmod [of es "[]"] eventLoop_chmod [of es "e # later"]
  by (auto simp: emit_def)

theorem chmod_ignored_other_exits_witness:
  "eventLoop [\<lparr>EventName = ''/var/build-cluster-kubeconfigs/a.kubeconfig'', Op = Chmod\<rparr>] =
     ([Receive \<lparr>EventName = ''/var/build-cluster-kubeconfigs/a.kubeconfig'', Op = Chmod\<rparr>], Watching)
   \<and> eventLoop [\<lparr>EventName = ''/var/build-cluster-kubeconfigs/a.kubeconfig'', Op = Chmod\<rparr>,
                 \<lparr>EventName = ''/var/build-cluster-kubeconfigs/a.kubeconfig'', Op = Write\<rparr>,
                 \<lparr>EventName = ''/var/build-cluster-kubeconfigs/a.kubeconfig'', Op = Remove\<rparr>] =
     ([Receive \<lparr>EventName = ''/var/build-cluster-kubeconfigs/a.kubeconfig'', Op = Chmod\<rparr>,
       Receive \<lparr>EventName = ''/var/build-cluster-kubeconfigs/a.kubeconfig'', Op = Write\<rparr>,
       Infof ''event: %s, kubeconfig changed, exiting to make the kubelet restart us so we can pick them up''
         \<lparr>EventName = ''/var/build-cluster-kubeconfigs/a.kubeconfig'', Op = Write\<rparr>,
       os_Exit 0], Exited 0)"
  using chmod_ignored_other_exits
    [of "[\<lparr>EventName = ''/var/build-cluster-kubeconfigs/a.kubeconfig'', Op = Chmod\<rparr>]"
        "\<lparr>EventName = ''/var/build-cluster-kubeconfigs/a.kubeconfig'', Op = Write\<rparr>"
        "[\<lparr>EventName = ''/var/build-cluster-kubeconfigs/a.kubeconfig'', Op = Remove\<rparr>]"]
  by (simp add: Chmod_def Write_def)

lemma addWatches_skip:
  "statFails w c \<Longrightarrow>
   addWatches w (c # cs) watched = emit [Call_Stat (KubeconfigPath c)] (addWatches w cs watched)"
  by (auto simp: statFails_def isl_def)

lemma addWatches_filter:
  "snd (addWatches w cs watched) = snd (addWatches w (filter (\<lambda>c. \<not> statFails w c) cs) watched)
   \<and> added (fst (addWatches w cs watched)) =
       added (fst (addWatches w (filter (\<lambda>c. \<not> statFails w c) cs) watched))"
proof (induction cs arbitrary: watched)
  case Nil
  then show ?case by simp
next
  case (Cons c cs)
  show ?case
  proof (cases "statFails w c")
    case True
    then show ?thesis using Cons.IH [of watched] by (simp add: addWatches_skip del: addWatches.simps)
  next
    case False
    then obtain info where "os_Stat w (KubeconfigPath c) = Inr info"
      by (cases "os_Stat w (KubeconfigPath c)") (auto simp: statFails_def)
    then show ?thesis using False Cons.IH [of "watched @ [KubeconfigPath c]"]
      by (auto split: option.splits)
  qed
qed

lemma addWatches_ok:
  "\<forall>c\<in>set cs. \<not> statFails w c \<longrightarrow> (\<forall>watched. watcher_Add w watched (KubeconfigPath c) = None) \<Longrightarrow>
   snd (addWatches w cs watched) = None
   \<and> added (fst (addWatches w cs watched)) = map KubeconfigPath (filter (\<lambda>c. \<not> statFails w c) cs)"
proof (induction cs arbitrary: watched)
  case Nil
  then show ?case by simp
next
  case (Cons c cs)
  then have rest: "\<forall>c\<in>set cs. \<not> statFails w c \<longrightarrow> (\<forall>watched. watcher_Add w watched (KubeconfigPath c) = None)"
    by simp
  show ?case
  proof (cases "statFails w c")
    case True
    then show ?thesis using Cons.IH [OF rest, of watched] by (simp add: addWatches_skip del: addWatches.simps)
  next
    case False
    then obtain info where "os_Stat w (KubeconfigPath c) = Inr info"
      by (cases "os_Stat w (KubeconfigPath c)") (auto simp: statFails_def)
    moreover from False Cons.prems have "watcher_Add w watched (KubeconfigPath c) = None" by simp
    ultimately show ?thesis using False Cons.IH [OF rest, of "watched @ [KubeconfigPath c]"]
      by simp
  qed
qed

lemma addWatches_paths:
  "Call_Stat p \<in> set (fst (addWatches w cs watched)) \<or> Call_Add p \<in> set (fst (addWatches w cs watched))
   \<Longrightarrow> p \<in> KubeconfigPath ` set cs"
  by (induction cs arbitrary: watched) (auto split: sum.splits option.splits)

lemma setup_paths:
  "Call_Stat p \<in> set (fst (setupKubeconfigWatches w clusters))
     \<or> Call_Add p \<in> set (fst (setupKubeconfigWatches w clusters))
   \<Longrightarrow> p \<in> KubeconfigPath ` set (range_values w clusters)"
  using addWatches_paths [of p w "range_values w clusters" "[]"]
  by (auto simp: setupKubeconfigWatches_def split: sum.splits prod.splits option.splits)

text \<open>
  C7. A bundle whose file is not on disk when the watches are registered is skipped in
  silence. Removing such bundles from the clusters visited changes neither the error of the
  loop nor the watches it registers; and when the watcher can be created and takes every file
  that exists, the setup returns no error, starts the goroutine, and has registered a watch
  for exactly the bundles whose file exists.
\<close>

theorem missing_file_is_skipped:
  assumes "fsnotify_NewWatcher w = Inr wt"
    and "\<forall>c\<in>set (range_values w clusters). \<not> statFails w c \<longrightarrow>
           (\<forall>watched. watcher_Add w watched (KubeconfigPath c) = None)"
  shows "snd (setupKubeconfigWatches w clusters) = None
    \<and> Go_eventLoop \<in> set (fst (setupKubeconfigWatches w clusters))
    \<and> added (fst (setupKubeconfigWatches w clusters)) =
         map KubeconfigPath (filter (\<lambda>c. \<not> statFails w c) (range_values w clusters))
    \<and> (\<forall>cs watched.
         snd (addWatches w cs watched) = snd (addWatches w (filter (\<lambda>c. \<not> statFails w c) cs) watched)
         \<and> added (fst (addWatches w cs watched)) =
             added (fst (addWatches w (filter (\<lambda>c. \<not> statFails w c) cs) watched)))"
  using addWatches_ok [OF assms(2), of "[]"] assms(1) addWatches_filter
  by (auto simp: setupKubeconfigWatches_def split: prod.splits option.splits)

theorem missing_file_is_skipped_witness:
  "fsnotify_NewWatcher demo_world = Inr (Watcher 1)
   \<and> range_values demo_world (Some [''a'' \<mapsto> bundle_a, ''b'' \<mapsto> bundle_b]) = [bundle_b, bundle_a]
   \<and> statFails demo_world bundle_b \<and> \<not> statFails demo_world bundle_a
   \<and> snd (setupKubeconfigWatches demo_world (Some [''a'' \<mapsto> bundle_a, ''b'' \<mapsto> bundle_b])) = None
   \<and> added (fst (setupKubeconfigWatches demo_world (Some [''a'' \<mapsto> bundle_a, ''b'' \<mapsto> bundle_b]))) =
       [''/var/build-cluster-kubeconfigs/a.kubeconfig'']"
proof -
  have w: "fsnotify_NewWatcher demo_world = Inr (Watcher 1)"
    by (simp add: demo_world_def)
  have r: "range_values demo_world (Some [''a'' \<mapsto> bundle_a, ''b'' \<mapsto> bundle_b]) = [bundle_b, bundle_a]"
    by (simp add: demo_world_def map_filter_simps)
  have s: "statFails demo_world bundle_b \<and> \<not> statFails demo_world bundle_a"
    by (simp add: statFails_def demo_world_def bundle_a_def bundle_b_def)
  have a: "\<forall>c\<in>set (range_values demo_world (Some [''a'' \<mapsto> bundle_a, ''b'' \<mapsto> bundle_b])).
      \<not> statFails demo_world c \<longrightarrow> (\<forall>watched. watcher_Add demo_world watched (KubeconfigPath c) = None)"
    by (simp add: demo_world_def)
  have p: "KubeconfigPath bundle_a = ''/var/build-cluster-kubeconfigs/a.kubeconfig''"
    by (simp add: bundle_a_def)
  from missing_file_is_skipped [OF w a] w r s p show ?thesis by simp
qed

text \<open>
  C10. After a successful scan of a directory, the path stored in every bundle of the map is
  the join of the directory with the name of a matched entry of its listing, the entry the
  bundle's key comes from; and every path the watch supervisor passes to \<^verbatim>\<open>os.Stat\<close>
  or to \<^verbatim>\<open>watcher.Add\<close> is the stored path of a bundle of the map, so it is that same
  join.
\<close>

theorem stored_path_is_watched_path:
  assumes "ioutil_ReadDir w location = Inr files"
    and "readBuildClusterKubeConfigs w location = (Some m, None)"
    and "set (range_order w m) \<subseteq> ran m"
  shows "(\<forall>k b. m k = Some b \<longrightarrow>
            (\<exists>f\<in>set files. \<not> IsDir f \<and> clusterName (Name f) = Some k
               \<and> KubeconfigPath b = path_Join w location (Name f)))
    \<and> (\<forall>p. Call_Stat p \<in> set (fst (setupKubeconfigWatches w (Some m)))
             \<or> Call_Add p \<in> set (fst (setupKubeconfigWatches w (Some m))) \<longrightarrow>
            (\<exists>k b. m k = Some b \<and> KubeconfigPath b = p
               \<and> (\<exists>f\<in>set files. \<not> IsDir f \<and> clusterName (Name f) = Some k
                     \<and> p = path_Join w location (Name f))))"
proof -
  from assms(1,2) have scan: "scanFiles w location files Map.empty = (Some m, None)"
    by (simp add: readBuildClusterKubeConfigs_def)
  have stored: "\<exists>f\<in>set files. \<not> IsDir f \<and> clusterName (Name f) = Some k
      \<and> KubeconfigPath b = path_Join w location (Name f)" if "m k = Some b" for k b
    using scanFiles_paths [OF scan that] by simp
  have watched: "\<exists>k b. m k = Some b \<and> KubeconfigPath b = p
      \<and> (\<exists>f\<in>set files. \<not> IsDir f \<and> clusterName (Name f) = Some k \<and> p = path_Join w location (Name f))"
    if "Call_Stat p \<in> set (fst (setupKubeconfigWatches w (Some m)))
        \<or> Call_Add p \<in> set (fst (setupKubeconfigWatches w (Some m)))" for p
  proof -
    from setup_paths [OF that] obtain b where "b \<in> set (range_order w m)" and p: "KubeconfigPath b = p"
      by auto
    with assms(3) have "b \<in> ran m" by blast
    then obtain k where k: "m k = Some b" by (auto simp: ran_def)
    from stored [OF k] p k show ?thesis by blast
  qed
  from stored watched show ?thesis by blast
qed

theorem stored_path_is_watched_path_witness:
  "ioutil_ReadDir demo_world ''/var/build-cluster-kubeconfigs'' =
     Inr [\<lparr>Name = ''a.kubeconfig'', IsDir = False\<rparr>, \<lparr>Name = ''notes.txt'', IsDir = False\<rparr>]
   \<and> readBuildClusterKubeConfigs demo_world ''/var/build-cluster-kubeconfigs'' = (Some [''a'' \<mapsto> bundle_a], None)
   \<and> set (range_order demo_world [''a'' \<mapsto> bundle_a]) \<subseteq> ran [''a'' \<mapsto> bundle_a]
   \<and> KubeconfigPath bundle_a = path_Join demo_world ''/var/build-cluster-kubeconfigs'' ''a.kubeconfig''
   \<and> fst (setupKubeconfigWatches demo_world (Some [''a'' \<mapsto> bundle_a])) =
       [Call_NewWatcher, Call_Stat (KubeconfigPath bundle_a), Call_Add (KubeconfigPath bundle_a), Go_eventLoop]"
proof -
  have l: "ioutil_ReadDir demo_world ''/var/build-cluster-kubeconfigs'' =
     Inr [\<lparr>Name = ''a.kubeconfig'', IsDir = False\<rparr>, \<lparr>Name = ''notes.txt'', IsDir = False\<rparr>]"
    by (simp add: demo_world_def)
  have r: "set (range_order demo_world [''a'' \<mapsto> bundle_a]) \<subseteq> ran [''a'' \<mapsto> bundle_a]"
    by (simp add: demo_world_def map_filter_simps)
  have p: "KubeconfigPath bundle_a = path_Join demo_world ''/var/build-cluster-kubeconfigs'' ''a.kubeconfig''"
    by (simp add: demo_world_def bundle_a_def)
  have e: "fst (setupKubeconfigWatches demo_world (Some [''a'' \<mapsto> bundle_a])) =
       [Call_NewWatcher, Call_Stat (KubeconfigPath bundle_a), Call_Add (KubeconfigPath bundle_a), Go_eventLoop]"
    by (simp add: setupKubeconfigWatches_def demo_world_def bundle_a_def map_filter_simps emit_def)
  from stored_path_is_watched_path [OF l scan_demo r] l scan_demo r p e show ?thesis by simp
qed

section \<open>The orchestrator\<close>

lemma setup_demo:
  "setupKubeconfigWatches demo_world (Some [''a'' \<mapsto> bundle_a]) =
    ([Call_NewWatcher, Call_Stat ''/var/build-cluster-kubeconfigs/a.kubeconfig'',
      Call_Add ''/var/build-cluster-kubeconfigs/a.kubeconfig'', Go_eventLoop], None)"
  by (simp add: setupKubeconfigWatches_def demo_world_def bundle_a_def map_filter_simps emit_def)

lemma startup_demo:
  "snd (startup demo_world default_options) = Inr (demo_manager, NewBot ''xoxb-1'')"
  unfolding startup_def
  apply (simp add: default_options_def scan_demo setup_demo)
  apply (simp add: demo_world_def demo_manager_def default_options_def Let_def)
  done









text \<open>
  C6. The claim: the bot token is checked first, so that without a token startup fails with
  the missing-token error and the directory is never scanned. The source reads
  \<^verbatim>\<open>BOT_TOKEN\<close> after the scan, the watch setup and the parsing of the resolver URL.
  In a world without the token and without the directory, the scan is made and
  \<^verbatim>\<open>run\<close> returns the error of the scan.
\<close>

theorem token_absent_counterexample:
  "os_Getenv no_directory_world ''BOT_TOKEN'' = []
   \<and> startup no_directory_world default_options =
       ([Call_readBuildClusterKubeConfigs ''/var/build-cluster-kubeconfigs''],
        Inl (Returns (Errorf ''unable to load build cluster configurations: %v''
              [Err (Errorf ''unable to access location %q: %v''
                     [Str ''/var/build-cluster-kubeconfigs'', Err (External ''no such file or directory'')])])))"
  by (simp add: startup_def readBuildClusterKubeConfigs_def no_directory_world_def no_token_world_def
        demo_world_def default_options_def emit_def)

text \<open>
  C6, as the source has it. Without a token the scan is still the first thing \<^verbatim>\<open>run\<close>
  does, and \<^verbatim>\<open>run\<close> returns an error. When the scan fails, the error is the error of
  the scan and nothing else has run. When the scan succeeds, the watch setup runs, with its
  warning if it fails, and the resolver URL is parsed; when that fails, the error is the
  error of the URL. When the URL parses, the variable is read and the error is the
  missing-token error: nothing that comes after the check in \<^verbatim>\<open>run\<close> has run, so
  \<^verbatim>\<open>loadKubeconfig\<close> is not called and neither the Job Manager nor the Bot is
  constructed.
\<close>

theorem token_checked_after_scan:
  assumes "os_Getenv w ''BOT_TOKEN'' = []"
  shows "hd (fst (startup w opt)) = Call_readBuildClusterKubeConfigs (BuildClusterKubeconfigsLocation opt)
    \<and> (\<exists>err. snd (startup w opt) = Inl (Returns err))
    \<and> (\<forall>clusters err.
          readBuildClusterKubeConfigs w (BuildClusterKubeconfigsLocation opt) = (clusters, Some err) \<longrightarrow>
          startup w opt =
            ([Call_readBuildClusterKubeConfigs (BuildClusterKubeconfigsLocation opt)],
             Inl (Returns (Errorf ''unable to load build cluster configurations: %v'' [Err err]))))
    \<and> (\<forall>clusters err.
          readBuildClusterKubeConfigs w (BuildClusterKubeconfigsLocation opt) = (clusters, None)
          \<and> url_Parse w (ConfigResolver opt) = Inl err \<longrightarrow>
          startup w opt =
            (Call_readBuildClusterKubeConfigs (BuildClusterKubeconfigsLocation opt)
               # fst (setupKubeconfigWatches w clusters)
               @ watchWarning (snd (setupKubeconfigWatches w clusters))
               @ [Call_url_Parse (ConfigResolver opt)],
             Inl (Returns (Errorf ''--config-resolver is not a valid URL: %v'' [Err err]))))
    \<and> (\<forall>clusters resolverURL.
          readBuildClusterKubeConfigs w (BuildClusterKubeconfigsLocation opt) = (clusters, None)
          \<and> url_Parse w (ConfigResolver opt) = Inr resolverURL \<longrightarrow>
          startup w opt =
            (Call_readBuildClusterKubeConfigs (BuildClusterKubeconfigsLocation opt)
               # fst (setupKubeconfigWatches w clusters)
               @ watchWarning (snd (setupKubeconfigWatches w clusters))
               @ [Call_url_Parse (ConfigResolver opt), Call_Getenv ''BOT_TOKEN''],
             Inl (Returns (Errorf ''the environment variable BOT_TOKEN must be set'' []))))"
proof (intro conjI allI impI)
  show "hd (fst (startup w opt)) = Call_readBuildClusterKubeConfigs (BuildClusterKubeconfigsLocation opt)"
    by (simp add: startup_def)
  show "\<exists>err. snd (startup w opt) = Inl (Returns err)"
    using assms by (simp add: startup_def split: prod.splits option.splits sum.splits)
next
  fix clusters err
  assume "readBuildClusterKubeConfigs w (BuildClusterKubeconfigsLocation opt) = (clusters, Some err)"
  then show "startup w opt =
            ([Call_readBuildClusterKubeConfigs (BuildClusterKubeconfigsLocation opt)],
             Inl (Returns (Errorf ''unable to load build cluster configurations: %v'' [Err err])))"
    by (simp add: startup_def emit_def)
next
  fix clusters err
  assume "readBuildClusterKubeConfigs w (BuildClusterKubeconfigsLocation opt) = (clusters, None)
          \<and> url_Parse w (ConfigResolver opt) = Inl err"
  then show "startup w opt =
            (Call_readBuildClusterKubeConfigs (BuildClusterKubeconfigsLocation opt)
               # fst (setupKubeconfigWatches w clusters)
               @ watchWarning (snd (setupKubeconfigWatches w clusters))
               @ [Call_url_Parse (ConfigResolver opt)],
             Inl (Returns (Errorf ''--config-resolver is not a valid URL: %v'' [Err err])))"
    by (simp add: startup_def emit_def watchWarning_def split: prod.splits)
next
  fix clusters resolverURL
  assume "readBuildClusterKubeConfigs w (BuildClusterKubeconfigsLocation opt) = (clusters, None)
          \<and> url_Parse w (ConfigResolver opt) = Inr resolverURL"
  with assms show "startup w opt =
            (Call_readBuildClusterKubeConfigs (BuildClusterKubeconfigsLocation opt)
               # fst (setupKubeconfigWatches w clusters)
               @ watchWarning (snd (setupKubeconfigWatches w clusters))
               @ [Call_url_Parse (ConfigResolver opt), Call_Getenv ''BOT_TOKEN''],
             Inl (Returns (Errorf ''the environment variable BOT_TOKEN must be set'' [])))"
    by (simp add: startup_def emit_def watchWarning_def split: prod.splits)
qed

lemma scan_no_token:
  "readBuildClusterKubeConfigs no_token_world ''/var/build-cluster-kubeconfigs'' = (Some [''a'' \<mapsto> bundle_a], None)"
  by (simp add: readBuildClusterKubeConfigs_def no_token_world_def demo_world_def bundle_a_def dot_def)

lemma scan_no_directory:
  "readBuildClusterKubeConfigs no_directory_world ''/var/build-cluster-kubeconfigs'' =
     (None, Some (Errorf ''unable to access location %q: %v''
                    [Str ''/var/build-cluster-kubeconfigs'', Err (External ''no such file or directory'')]))"
  by (simp add: readBuildClusterKubeConfigs_def no_directory_world_def no_token_world_def demo_world_def)

theorem token_checked_after_scan_witness:
  "os_Getenv no_token_world ''BOT_TOKEN'' = []
   \<and> readBuildClusterKubeConfigs no_token_world (BuildClusterKubeconfigsLocation default_options) =
       (Some [''a'' \<mapsto> bundle_a], None)
   \<and> url_Parse no_token_world (ConfigResolver default_options) =
       Inr (URL ''http://config.ci.openshift.org/config'')
   \<and> startup no_token_world default_options =
       ([Call_readBuildClusterKubeConfigs ''/var/build-cluster-kubeconfigs'',
         Call_NewWatcher,
         Call_Stat ''/var/build-cluster-kubeconfigs/a.kubeconfig'',
         Call_Add ''/var/build-cluster-kubeconfigs/a.kubeconfig'',
         Go_eventLoop,
         Call_url_Parse ''http://config.ci.openshift.org/config'',
         Call_Getenv ''BOT_TOKEN''],
        Inl (Returns (Errorf ''the environment variable BOT_TOKEN must be set'' [])))
   \<and> os_Getenv no_directory_world ''BOT_TOKEN'' = []
   \<and> snd (readBuildClusterKubeConfigs no_directory_world (BuildClusterKubeconfigsLocation default_options)) \<noteq> None
   \<and> snd (startup no_directory_world default_options) =
       Inl (Returns (Errorf ''unable to load build cluster configurations: %v''
              [Err (Errorf ''unable to access location %q: %v''
                     [Str ''/var/build-cluster-kubeconfigs'', Err (External ''no such file or directory'')])]))"
proof -
  have t: "os_Getenv no_token_world ''BOT_TOKEN'' = []"
    and t': "os_Getenv no_directory_world ''BOT_TOKEN'' = []"
    by (simp_all add: no_token_world_def no_directory_world_def)
  have l: "BuildClusterKubeconfigsLocation default_options = ''/var/build-cluster-kubeconfigs''"
    and c: "ConfigResolver default_options = ''http://config.ci.openshift.org/config''"
    by (simp_all add: default_options_def)
  have u: "url_Parse no_token_world ''http://config.ci.openshift.org/config''
      = Inr (URL ''http://config.ci.openshift.org/config'')"
    by (simp add: no_token_world_def demo_world_def)
  have s: "setupKubeconfigWatches no_token_world (Some [''a'' \<mapsto> bundle_a]) =
    ([Call_NewWatcher, Call_Stat ''/var/build-cluster-kubeconfigs/a.kubeconfig'',
      Call_Add ''/var/build-cluster-kubeconfigs/a.kubeconfig'', Go_eventLoop], None)"
    by (simp add: setupKubeconfigWatches_def no_token_world_def demo_world_def bundle_a_def
          map_filter_simps emit_def)
  from token_checked_after_scan [OF t, of default_options]
       token_checked_after_scan [OF t', of default_options]
       scan_no_token scan_no_directory u s t t' l c
  show ?thesis by (simp add: watchWarning_def)
qed

text \<open>
  \<^verbatim>\<open>run\<close> never reads the error that \<^verbatim>\<open>loadKubeconfigFromFlagOrDefault\<close>
  returns: the next line assigns to \<^verbatim>\<open>err\<close> again. Whatever the error is, startup
  goes the way the pointer that came with it decides.
\<close>

lemma bundleOf_load_indep:
  "bundleOf (w\<lparr>loadKubeconfigFromFlagOrDefault := l\<rparr>) location f = bundleOf w location f"
  by (simp add: bundleOf_def cong: sum.case_cong)

lemma scanFiles_load_indep:
  "scanFiles (w\<lparr>loadKubeconfigFromFlagOrDefault := l\<rparr>) location files cm
     = scanFiles w location files cm"
proof (induction files arbitrary: cm)
  case Nil
  then show ?case by simp
next
  case (Cons f files)
  then show ?case
    by (simp only: scanFiles_step bundleOf_load_indep cong: sum.case_cong if_cong)
qed

lemma scan_load_indep:
  "readBuildClusterKubeConfigs (w\<lparr>loadKubeconfigFromFlagOrDefault := l\<rparr>) location
     = readBuildClusterKubeConfigs w location"
  by (simp add: readBuildClusterKubeConfigs_def scanFiles_load_indep cong: sum.case_cong)

lemma addWatches_load_indep:
  "addWatches (w\<lparr>loadKubeconfigFromFlagOrDefault := l\<rparr>) cs watched = addWatches w cs watched"
  by (induction cs arbitrary: watched) (simp_all cong: sum.case_cong option.case_cong)

lemma setup_load_indep:
  "setupKubeconfigWatches (w\<lparr>loadKubeconfigFromFlagOrDefault := l\<rparr>) clusters
     = setupKubeconfigWatches w clusters"
proof -
  have "range_values (w\<lparr>loadKubeconfigFromFlagOrDefault := l\<rparr>) clusters = range_values w clusters"
    by (cases clusters) simp_all
  then show ?thesis
    by (simp add: setupKubeconfigWatches_def addWatches_load_indep cong: sum.case_cong)
qed

lemma release_load_error_unchecked:
  "startup (w\<lparr>loadKubeconfigFromFlagOrDefault :=
       (\<lambda>p def. (fst (loadKubeconfigFromFlagOrDefault w p def), e p def))\<rparr>) opt = startup w opt"
  by (simp add: startup_def scan_load_indep setup_load_indep Let_def split_beta
        cong: sum.case_cong option.case_cong if_cong prod.case_cong)

text \<open>
  C2. The claim: a failure to load the release cluster's credential makes \<^verbatim>\<open>run\<close>
  return an error. In \<open>demo_world\<close>, with the flag
  \<^verbatim>\<open>--release-cluster-kubeconfig\<close> set, loading the credential fails and returns
  \<^verbatim>\<open>(nil, err)\<close>. \<^verbatim>\<open>run\<close> does not look at the error: it calls
  \<^verbatim>\<open>imageclientset.NewForConfig(nil)\<close> and panics there. It returns no error, neither
  the one of the load nor another; the Job Manager and the Bot are not constructed.
\<close>

theorem release_load_error_is_dropped:
  "loadKubeconfigFromFlagOrDefault demo_world (ReleaseClusterKubeconfig release_options) (RestConfig 0) =
     (None, Some (External ''no such file or directory''))
   \<and> run demo_world release_options =
       Some ([Call_readBuildClusterKubeConfigs ''/var/build-cluster-kubeconfigs'',
              Call_NewWatcher,
              Call_Stat ''/var/build-cluster-kubeconfigs/a.kubeconfig'',
              Call_Add ''/var/build-cluster-kubeconfigs/a.kubeconfig'',
              Go_eventLoop,
              Call_url_Parse ''http://config.ci.openshift.org/config'',
              Call_Getenv ''BOT_TOKEN'',
              Call_loadKubeconfig,
              Call_dynamic_NewForConfig (RestConfig 0),
              Call_loadKubeconfigFromFlagOrDefault ''/etc/release.kubeconfig'' (RestConfig 0),
              Call_imageclientset_NewForConfig None],
             Panics ''runtime error: invalid memory address or nil pointer dereference'')"
proof
  show "loadKubeconfigFromFlagOrDefault demo_world (ReleaseClusterKubeconfig release_options) (RestConfig 0) =
     (None, Some (External ''no such file or directory''))"
    by (simp add: demo_world_def release_options_def default_options_def)
  have l: "BuildClusterKubeconfigsLocation release_options = ''/var/build-cluster-kubeconfigs''"
    by (simp add: release_options_def default_options_def)
  have "startup demo_world release_options =
       ([Call_readBuildClusterKubeConfigs ''/var/build-cluster-kubeconfigs'',
              Call_NewWatcher,
              Call_Stat ''/var/build-cluster-kubeconfigs/a.kubeconfig'',
              Call_Add ''/var/build-cluster-kubeconfigs/a.kubeconfig'',
              Go_eventLoop,
              Call_url_Parse ''http://config.ci.openshift.org/config'',
              Call_Getenv ''BOT_TOKEN'',
              Call_loadKubeconfig,
              Call_dynamic_NewForConfig (RestConfig 0),
              Call_loadKubeconfigFromFlagOrDefault ''/etc/release.kubeconfig'' (RestConfig 0),
              Call_imageclientset_NewForConfig None],
             Inl (Panics ''runtime error: invalid memory address or nil pointer dereference''))"
    unfolding startup_def
    apply (simp add: l scan_demo setup_demo)
    apply (simp add: demo_world_def release_options_def default_options_def Let_def emit_def
             nil_dereference_def)
    done
  then show "run demo_world release_options =
       Some ([Call_readBuildClusterKubeConfigs ''/var/build-cluster-kubeconfigs'',
              Call_NewWatcher,
              Call_Stat ''/var/build-cluster-kubeconfigs/a.kubeconfig'',
              Call_Add ''/var/build-cluster-kubeconfigs/a.kubeconfig'',
              Go_eventLoop,
              Call_url_Parse ''http://config.ci.openshift.org/config'',
              Call_Getenv ''BOT_TOKEN'',
              Call_loadKubeconfig,
              Call_dynamic_NewForConfig (RestConfig 0),
              Call_loadKubeconfigFromFlagOrDefault ''/etc/release.kubeconfig'' (RestConfig 0),
              Call_imageclientset_NewForConfig None],
             Panics ''runtime error: invalid memory address or nil pointer dereference'')"
    by (simp add: run_def)
qed

text \<open>The retry loop, round by round.\<close>

lemma botLoop_retry:
  "nilOrRetriable w (bot_Start w b m n) \<Longrightarrow>
   botLoop w b m n past = botLoop w b m (Suc n) (past @ [Call_bot_Start, Sleep 5])"
  by (subst botLoop.simps) (auto simp: nilOrRetriable_def split: option.splits)

lemma botLoop_exit:
  "bot_Start w b m n = Some err \<Longrightarrow> \<not> isRetriable w err \<Longrightarrow>
   botLoop w b m n past = Some (past @ [Call_bot_Start], err)"
  by (subst botLoop.simps) simp

lemma botLoop_rounds:
  "\<forall>i<k. nilOrRetriable w (bot_Start w b m (n + i)) \<Longrightarrow>
   botLoop w b m n past = botLoop w b m (n + k) (past @ concat (replicate k [Call_bot_Start, Sleep 5]))"
proof (induction k arbitrary: n past)
  case 0
  then show ?case by simp
next
  case (Suc k)
  from Suc.prems have first: "nilOrRetriable w (bot_Start w b m n)" by (metis add.right_neutral zero_less_Suc)
  from Suc.prems have "\<forall>i<k. nilOrRetriable w (bot_Start w b m (Suc n + i))"
    by (metis Suc_less_eq add_Suc_shift)
  from Suc.IH [OF this] botLoop_retry [OF first] show ?case by simp
qed

lemma botLoop_returns_only_on_fatal:
  assumes "botLoop w b m n past = Some y"
  shows "\<not> (\<forall>i. nilOrRetriable w (bot_Start w b m i))"
proof (rule botLoop.raw_induct [where P = "\<lambda>w b m n past y. \<not> (\<forall>i. nilOrRetriable w (bot_Start w b m i))", OF _ assms])
  fix f :: "world \<Rightarrow> bot \<Rightarrow> job_manager \<Rightarrow> nat \<Rightarrow> effect list \<Rightarrow> (effect list \<times> error) option"
  fix w b m n past y
  assume IH: "\<And>w b m n past y. f w b m n past = Some y \<Longrightarrow> \<not> (\<forall>i. nilOrRetriable w (bot_Start w b m i))"
    and body: "(case bot_Start w b m n of
         None \<Rightarrow> f w b m (Suc n) (past @ [Call_bot_Start, Sleep 5])
       | Some err \<Rightarrow> if \<not> isRetriable w err then Some (past @ [Call_bot_Start], err)
                     else f w b m (Suc n) (past @ [Call_bot_Start, Sleep 5])) = Some y"
  show "\<not> (\<forall>i. nilOrRetriable w (bot_Start w b m i))"
  proof
    assume all: "\<forall>i. nilOrRetriable w (bot_Start w b m i)"
    then have "nilOrRetriable w (bot_Start w b m n)" by blast
    with body have "f w b m (Suc n) (past @ [Call_bot_Start, Sleep 5]) = Some y"
      by (auto simp: nilOrRetriable_def split: option.splits if_splits)
    from IH [OF this] all show False by blast
  qed
qed

lemma botLoop_forever:
  "\<forall>i. nilOrRetriable w (bot_Start w b m i) \<Longrightarrow> botLoop w b m n past = None"
  using botLoop_returns_only_on_fatal [of w b m n past] by (cases "botLoop w b m n past") auto

text \<open>
  C5. Once startup has constructed the Job Manager and the Bot: after a return of the Bot
  with no error or with a retriable error the loop sleeps 5 seconds and starts the Bot
  again; after a return with an error that is not retriable \<^verbatim>\<open>run\<close> returns that
  error at once, without sleeping. So \<^verbatim>\<open>run\<close> returns at the first fatal return of
  the Bot, after as many pauses as there were returns before it, whatever their number; it
  never returns when no return is fatal; and with two retriable errors followed by a fatal
  one there are three starts, two pauses between them, and the third error is returned.
\<close>

theorem retry_loop:
  assumes "startup w opt = (effects, Inr (manager, b))"
  shows "(\<forall>n past. nilOrRetriable w (bot_Start w b manager n) \<longrightarrow>
            botLoop w b manager n past = botLoop w b manager (Suc n) (past @ [Call_bot_Start, Sleep 5]))
    \<and> (\<forall>n past err. bot_Start w b manager n = Some err \<and> \<not> isRetriable w err \<longrightarrow>
            botLoop w b manager n past = Some (past @ [Call_bot_Start], err))
    \<and> (\<forall>k err. (\<forall>i<k. nilOrRetriable w (bot_Start w b manager i))
            \<and> bot_Start w b manager k = Some err \<and> \<not> isRetriable w err \<longrightarrow>
            run w opt = Some (effects @ concat (replicate k [Call_bot_Start, Sleep 5]) @ [Call_bot_Start],
                              Returns err))
    \<and> ((\<forall>i. nilOrRetriable w (bot_Start w b manager i)) \<longrightarrow> run w opt = None)
    \<and> (\<forall>e1 e2 e3. bot_Start w b manager 0 = Some e1 \<and> isRetriable w e1
            \<and> bot_Start w b manager 1 = Some e2 \<and> isRetriable w e2
            \<and> bot_Start w b manager 2 = Some e3 \<and> \<not> isRetriable w e3 \<longrightarrow>
            run w opt = Some (effects @ [Call_bot_Start, Sleep 5, Call_bot_Start, Sleep 5, Call_bot_Start],
                              Returns e3))"
proof -
  have run: "run w opt =
      (case botLoop w b manager 0 effects of
         None \<Rightarrow> None
       | Some (effects', err) \<Rightarrow> Some (effects', Returns err))"
    by (simp add: run_def assms)
  have general: "run w opt = Some (effects @ concat (replicate k [Call_bot_Start, Sleep 5]) @ [Call_bot_Start],
                                   Returns err)"
    if "\<forall>i<k. nilOrRetriable w (bot_Start w b manager i)"
      and "bot_Start w b manager k = Some err" and "\<not> isRetriable w err" for k err
  proof -
    from that(1) have "\<forall>i<k. nilOrRetriable w (bot_Start w b manager (0 + i))" by simp
    from botLoop_rounds [OF this] botLoop_exit [OF that(2,3)] run show ?thesis by simp
  qed
  have three: "run w opt = Some (effects @ [Call_bot_Start, Sleep 5, Call_bot_Start, Sleep 5, Call_bot_Start],
                                 Returns e3)"
    if "bot_Start w b manager 0 = Some e1" "isRetriable w e1"
       "bot_Start w b manager 1 = Some e2" "isRetriable w e2"
       "bot_Start w b manager 2 = Some e3" "\<not> isRetriable w e3" for e1 e2 e3
  proof -
    have "\<forall>i<2. nilOrRetriable w (bot_Start w b manager i)"
      using that(1-4) by (auto simp: nilOrRetriable_def less_Suc_eq numeral_2_eq_2)
    from general [OF this that(5,6)] show ?thesis by (simp add: numeral_2_eq_2)
  qed
  have forever: "run w opt = None" if "\<forall>i. nilOrRetriable w (bot_Start w b manager i)"
    using botLoop_forever [OF that] run by simp
  show ?thesis
  proof (intro conjI allI impI)
    fix n past
    assume "nilOrRetriable w (bot_Start w b manager n)"
    then show "botLoop w b manager n past = botLoop w b manager (Suc n) (past @ [Call_bot_Start, Sleep 5])"
      by (rule botLoop_retry)
  next
    fix n past err
    assume "bot_Start w b manager n = Some err \<and> \<not> isRetriable w err"
    then show "botLoop w b manager n past = Some (past @ [Call_bot_Start], err)"
      using botLoop_exit by blast
  next
    fix k err
    assume "(\<forall>i<k. nilOrRetriable w (bot_Start w b manager i))
            \<and> bot_Start w b manager k = Some err \<and> \<not> isRetriable w err"
    then show "run w opt = Some (effects @ concat (replicate k [Call_bot_Start, Sleep 5]) @ [Call_bot_Start],
                                 Returns err)"
      using general by blast
  next
    assume "\<forall>i. nilOrRetriable w (bot_Start w b manager i)"
    then show "run w opt = None" by (rule forever)
  next
    fix e1 e2 e3
    assume "bot_Start w b manager 0 = Some e1 \<and> isRetriable w e1
            \<and> bot_Start w b manager 1 = Some e2 \<and> isRetriable w e2
            \<and> bot_Start w b manager 2 = Some e3 \<and> \<not> isRetriable w e3"
    then show "run w opt = Some (effects @ [Call_bot_Start, Sleep 5, Call_bot_Start, Sleep 5, Call_bot_Start],
                                 Returns e3)"
      using three by blast
  qed
qed

theorem retry_loop_witness:
  "snd (startup demo_world default_options) = Inr (demo_manager, NewBot ''xoxb-1'')
   \<and> bot_Start demo_world (NewBot ''xoxb-1'') demo_manager 0 = Some (External ''connection reset'')
   \<and> isRetriable demo_world (External ''connection reset'')
   \<and> bot_Start demo_world (NewBot ''xoxb-1'') demo_manager 1 = Some (External ''connection reset'')
   \<and> bot_Start demo_world (NewBot ''xoxb-1'') demo_manager 2 = Some (External ''invalid_auth'')
   \<and> \<not> isRetriable demo_world (External ''invalid_auth'')
   \<and> run demo_world default_options =
       Some (fst (startup demo_world default_options)
               @ [Call_bot_Start, Sleep 5, Call_bot_Start, Sleep 5, Call_bot_Start],
             Returns (External ''invalid_auth''))"
proof -
  have s: "startup demo_world default_options =
      (fst (startup demo_world default_options), Inr (demo_manager, NewBot ''xoxb-1''))"
    using startup_demo by (simp add: prod_eq_iff)
  have b: "bot_Start demo_world (NewBot ''xoxb-1'') demo_manager 0 = Some (External ''connection reset'')
     \<and> isRetriable demo_world (External ''connection reset'')
     \<and> bot_Start demo_world (NewBot ''xoxb-1'') demo_manager 1 = Some (External ''connection reset'')
     \<and> bot_Start demo_world (NewBot ''xoxb-1'') demo_manager 2 = Some (External ''invalid_auth'')
     \<and> \<not> isRetriable demo_world (External ''invalid_auth'')"
    by (simp add: demo_world_def)
  from retry_loop [OF s] b startup_demo show ?thesis by blast
qed

end
